theory Spec2Isabelle
  imports Main "HOL-Library.Multiset" "HOL-Library.List_Lexorder"
begin

section \<open>The shopping list component\<close>

text \<open>
  The repository holds one React component, \<^verbatim>\<open>ShoppingList\<close>, in two files:
  \<^verbatim>\<open>src/components/ShoppingList.js\<close> and a second copy kept as
  \<^verbatim>\<open>unnamed/part_000\<close>. The two differ in the list of default categories and in
  \<^verbatim>\<open>getItemsByCategory\<close> (only the first sorts). Every definition below that depends
  on the file takes the file as its first argument, so that a statement can be made about
  either of them or about both.
\<close>

datatype source_file = ShoppingList_js | Part_000

subsection \<open>Rows of the two tables\<close>

text \<open>
  A row of \<^verbatim>\<open>shopping_items\<close> and a row of \<^verbatim>\<open>categories\<close>, with the columns the
  component reads or writes. Identifiers are opaque and only compared with \<^verbatim>\<open>===\<close>;
  they are natural numbers here. The column \<^verbatim>\<open>created_at\<close> is only used to order a
  fetch: a table is a list in creation order, and an insert appends.
\<close>

record item =
  item_id :: nat
  name :: string
  category :: string
  needed :: bool
  bought :: bool
  user_id :: nat

record category_row =
  row_name :: string
  row_user_id :: nat

subsection \<open>Strings\<close>

text \<open>
  A string is a list of 8-bit characters, read as the code units U+0000 to U+00FF.
  \<^verbatim>\<open>String.prototype.trim\<close> removes white space and line terminators at both ends;
  in this range these are TAB, LF, VT, FF, CR, SP and NBSP.
  \<^verbatim>\<open>String.prototype.toLowerCase\<close> maps A-Z and the upper-case letters of Latin-1
  to their lower-case forms.
\<close>

definition isWhiteSpace :: "char \<Rightarrow> bool" where
  "isWhiteSpace c = (of_char c \<in> {9, 10, 11, 12, 13, 32, 160 :: nat})"

definition trim :: "string \<Rightarrow> string" where
  "trim s = rev (dropWhile isWhiteSpace (rev (dropWhile isWhiteSpace s)))"

definition toLowerCase_char :: "char \<Rightarrow> char" where
  "toLowerCase_char c =
     (let n = of_char c :: nat in
      if (65 \<le> n \<and> n \<le> 90) \<or> (192 \<le> n \<and> n \<le> 222 \<and> n \<noteq> 215)
      then char_of (n + 32) else c)"

definition toLowerCase :: "string \<Rightarrow> string" where
  "toLowerCase s = map toLowerCase_char s"

text \<open>
  \<^verbatim>\<open>a.localeCompare(b)\<close> is the host's collation: negative, zero or positive. The
  collation is a parameter: a function \<open>collate\<close> from strings to sort keys of a linear
  order, as a collator computes them. Two strings with the same key compare as equal.
\<close>

definition localeCompare :: "(string \<Rightarrow> 'k::linorder) \<Rightarrow> string \<Rightarrow> string \<Rightarrow> int" where
  "localeCompare collate a b =
     (if collate a < collate b then - 1 else if collate b < collate a then 1 else 0)"

text \<open>The collation by code units, used to run the definitions on concrete lists.\<close>

definition codeUnits :: "string \<Rightarrow> nat list" where
  "codeUnits s = map of_char s"

subsection \<open>Array.prototype.sort\<close>

text \<open>
  \<^verbatim>\<open>xs.sort(compareFn)\<close> is stable: with a consistent comparator the result is the one
  sorted permutation that keeps elements comparing equal in their order in \<open>xs\<close>. Stable
  insertion computes it: an element goes before the first later element it does not
  compare greater than.
\<close>

fun insertBy :: "('a \<Rightarrow> 'a \<Rightarrow> int) \<Rightarrow> 'a \<Rightarrow> 'a list \<Rightarrow> 'a list" where
  "insertBy compareFn x [] = [x]"
| "insertBy compareFn x (y # ys) =
     (if compareFn x y \<le> 0 then x # y # ys else y # insertBy compareFn x ys)"

fun sortBy :: "('a \<Rightarrow> 'a \<Rightarrow> int) \<Rightarrow> 'a list \<Rightarrow> 'a list" where
  "sortBy compareFn [] = []"
| "sortBy compareFn (x # xs) = insertBy compareFn x (sortBy compareFn xs)"

subsection \<open>State\<close>

text \<open>
  The component's state (its \<^verbatim>\<open>useState\<close> cells), extended by the state of the
  service it talks to: the two tables, the counter the service takes the next item id
  from, and the requests sent so far, oldest first.
\<close>

datatype request =
    Select_items nat
  | Select_categories nat
  | Insert_category string nat
  | Insert_item string string bool bool nat
  | Update_needed bool nat nat
  | Update_bought bool nat nat
  | Update_reset nat
  | Delete_item nat nat

record view =
  items :: "item list"
  categories :: "string list"
  newItemInputs :: "string \<rightharpoonup> string"
  collapsedCategories :: "string set"
  storeMode :: bool
  showAddCategory :: bool
  newCategoryName :: string
  loading :: bool

record world = view +
  shopping_items :: "item list"
  categories_table :: "category_row list"
  next_id :: nat
  requests :: "request list"

text \<open>
  Every call of the service resolves to \<^verbatim>\<open>{ data, error }\<close>. Whether it is served or
  fails (network, authentication, a constraint) is not decided by the component: the
  reply is an argument of each operation, one per call the operation can make. A failed
  call is recorded as sent and leaves the tables as they are.
\<close>

datatype reply = Served | RemoteError

definition defaultCategories :: "source_file \<Rightarrow> string list" where
  "defaultCategories sf =
     (case sf of
        ShoppingList_js \<Rightarrow>
          [''Refrigerated items'', ''Bread'', ''Fruit/Veggie'', ''Frozen'', ''Bulk'',
           ''Household items'']
      | Part_000 \<Rightarrow>
          [''Refrigerated items'', ''Bread'', ''Fruit/Veg'', ''Frozen'', ''Bulk'',
           ''Household items'', ''Amy'', ''Dm'', ''Bipa''])"

subsection \<open>Calls of the service\<close>

definition sent :: "request \<Rightarrow> world \<Rightarrow> world" where
  "sent q w = w\<lparr>requests := requests w @ [q]\<rparr>"

definition select_items :: "nat \<Rightarrow> world \<Rightarrow> item list" where
  "select_items uid w = filter (\<lambda>r. user_id r = uid) (shopping_items w)"

definition select_categories :: "nat \<Rightarrow> world \<Rightarrow> category_row list" where
  "select_categories uid w = filter (\<lambda>r. row_user_id r = uid) (categories_table w)"

definition insert_category :: "reply \<Rightarrow> string \<Rightarrow> nat \<Rightarrow> world \<Rightarrow> world" where
  "insert_category r n uid w =
     (case r of
        RemoteError \<Rightarrow> sent (Insert_category n uid) w
      | Served \<Rightarrow>
          sent (Insert_category n uid)
            (w\<lparr>categories_table :=
                 categories_table w @ [\<lparr>row_name = n, row_user_id = uid\<rparr>]\<rparr>))"

definition insert_item ::
  "reply \<Rightarrow> string \<Rightarrow> string \<Rightarrow> bool \<Rightarrow> bool \<Rightarrow> nat \<Rightarrow> world \<Rightarrow> world" where
  "insert_item r n c nd bt uid w =
     (case r of
        RemoteError \<Rightarrow> sent (Insert_item n c nd bt uid) w
      | Served \<Rightarrow>
          sent (Insert_item n c nd bt uid)
            (w\<lparr>shopping_items :=
                 shopping_items w @
                   [\<lparr>item_id = next_id w, name = n, category = c, needed = nd, bought = bt,
                     user_id = uid\<rparr>],
               next_id := Suc (next_id w)\<rparr>))"

text \<open>
  \<^verbatim>\<open>.update({ needed: v }).eq('id', x).eq('user_id', uid)\<close> patches every row that
  passes both filters, and likewise for \<^verbatim>\<open>bought\<close>.
\<close>

definition patch_needed :: "bool \<Rightarrow> nat \<Rightarrow> nat \<Rightarrow> item \<Rightarrow> item" where
  "patch_needed v x uid row =
     (if item_id row = x \<and> user_id row = uid then row\<lparr>needed := v\<rparr> else row)"

definition patch_bought :: "bool \<Rightarrow> nat \<Rightarrow> nat \<Rightarrow> item \<Rightarrow> item" where
  "patch_bought v x uid row =
     (if item_id row = x \<and> user_id row = uid then row\<lparr>bought := v\<rparr> else row)"

definition update_needed :: "reply \<Rightarrow> bool \<Rightarrow> nat \<Rightarrow> nat \<Rightarrow> world \<Rightarrow> world" where
  "update_needed r v x uid w =
     (case r of
        RemoteError \<Rightarrow> sent (Update_needed v x uid) w
      | Served \<Rightarrow>
          sent (Update_needed v x uid)
            (w\<lparr>shopping_items := map (patch_needed v x uid) (shopping_items w)\<rparr>))"

definition update_bought :: "reply \<Rightarrow> bool \<Rightarrow> nat \<Rightarrow> nat \<Rightarrow> world \<Rightarrow> world" where
  "update_bought r v x uid w =
     (case r of
        RemoteError \<Rightarrow> sent (Update_bought v x uid) w
      | Served \<Rightarrow>
          sent (Update_bought v x uid)
            (w\<lparr>shopping_items := map (patch_bought v x uid) (shopping_items w)\<rparr>))"

definition update_reset :: "reply \<Rightarrow> nat \<Rightarrow> world \<Rightarrow> world" where
  "update_reset r uid w =
     (case r of
        RemoteError \<Rightarrow> sent (Update_reset uid) w
      | Served \<Rightarrow>
          sent (Update_reset uid)
            (w\<lparr>shopping_items :=
                 map (\<lambda>row. if user_id row = uid
                              then row\<lparr>needed := False, bought := False\<rparr> else row)
                   (shopping_items w)\<rparr>))"

definition delete_item :: "reply \<Rightarrow> nat \<Rightarrow> nat \<Rightarrow> world \<Rightarrow> world" where
  "delete_item r x uid w =
     (case r of
        RemoteError \<Rightarrow> sent (Delete_item x uid) w
      | Served \<Rightarrow>
          sent (Delete_item x uid)
            (w\<lparr>shopping_items :=
                 filter (\<lambda>row. \<not> (item_id row = x \<and> user_id row = uid))
                   (shopping_items w)\<rparr>))"

subsection \<open>Fetching\<close>

text \<open>
  \<^verbatim>\<open>fetchItems\<close>: on an error the catch block logs and the items stay as they were.
  \<^verbatim>\<open>fetchCategories\<close>: on an error the categories fall back to the defaults.
\<close>

definition fetchItems :: "reply \<Rightarrow> nat \<Rightarrow> world \<Rightarrow> world" where
  "fetchItems r uid w =
     (case r of
        RemoteError \<Rightarrow> sent (Select_items uid) w
      | Served \<Rightarrow> (sent (Select_items uid) w)\<lparr>items := select_items uid w\<rparr>)"

definition allCategories :: "source_file \<Rightarrow> string list \<Rightarrow> string list" where
  "allCategories sf userCategories =
     defaultCategories sf @
       filter (\<lambda>cat. cat \<notin> set (defaultCategories sf)) userCategories"

definition fetchCategories :: "source_file \<Rightarrow> reply \<Rightarrow> nat \<Rightarrow> world \<Rightarrow> world" where
  "fetchCategories sf r uid w =
     (case r of
        RemoteError \<Rightarrow> (sent (Select_categories uid) w)\<lparr>categories := defaultCategories sf\<rparr>
      | Served \<Rightarrow>
          (sent (Select_categories uid) w)
            \<lparr>categories := allCategories sf (map row_name (select_categories uid w))\<rparr>)"

subsection \<open>Operations\<close>

text \<open>
  Each operation validates, makes one call and, when the call was served, updates the
  state and fetches again. \<open>uid\<close> is \<^verbatim>\<open>session.user.id\<close>; \<open>r1\<close> is the reply to the
  call and \<open>r2\<close> the reply to the fetch after it.
\<close>

definition addCategory :: "source_file \<Rightarrow> reply \<Rightarrow> reply \<Rightarrow> nat \<Rightarrow> world \<Rightarrow> world" where
  "addCategory sf r1 r2 uid w =
     (if trim (newCategoryName w) = [] \<or> trim (newCategoryName w) \<in> set (categories w)
      then w
      else
        (case r1 of
           RemoteError \<Rightarrow> insert_category r1 (trim (newCategoryName w)) uid w
         | Served \<Rightarrow>
             fetchCategories sf r2 uid
               ((insert_category r1 (trim (newCategoryName w)) uid w)
                  \<lparr>showAddCategory := False, newCategoryName := []\<rparr>)))"

definition inputValue :: "'a view_scheme \<Rightarrow> string \<Rightarrow> string" where
  "inputValue w c = (case newItemInputs w c of None \<Rightarrow> [] | Some v \<Rightarrow> v)"

definition addItem :: "reply \<Rightarrow> reply \<Rightarrow> nat \<Rightarrow> string \<Rightarrow> world \<Rightarrow> world" where
  "addItem r1 r2 uid c w =
     (if trim (inputValue w c) = [] then w
      else
        (case r1 of
           RemoteError \<Rightarrow> insert_item r1 (trim (inputValue w c)) c False False uid w
         | Served \<Rightarrow>
             fetchItems r2 uid
               ((insert_item r1 (trim (inputValue w c)) c False False uid w)
                  \<lparr>newItemInputs := (newItemInputs w)(c \<mapsto> [])\<rparr>)))"

definition updateNewItemInput :: "string \<Rightarrow> string \<Rightarrow> world \<Rightarrow> world" where
  "updateNewItemInput c v w = w\<lparr>newItemInputs := (newItemInputs w)(c \<mapsto> v)\<rparr>"

definition toggleNeeded :: "reply \<Rightarrow> reply \<Rightarrow> nat \<Rightarrow> nat \<Rightarrow> world \<Rightarrow> world" where
  "toggleNeeded r1 r2 uid x w =
     (case find (\<lambda>i. item_id i = x) (items w) of
        None \<Rightarrow> w
      | Some i \<Rightarrow>
          (case r1 of
             RemoteError \<Rightarrow> update_needed r1 (\<not> needed i) x uid w
           | Served \<Rightarrow> fetchItems r2 uid (update_needed r1 (\<not> needed i) x uid w)))"

definition toggleBought :: "reply \<Rightarrow> reply \<Rightarrow> nat \<Rightarrow> nat \<Rightarrow> world \<Rightarrow> world" where
  "toggleBought r1 r2 uid x w =
     (case find (\<lambda>i. item_id i = x) (items w) of
        None \<Rightarrow> w
      | Some i \<Rightarrow>
          (case r1 of
             RemoteError \<Rightarrow> update_bought r1 (\<not> bought i) x uid w
           | Served \<Rightarrow> fetchItems r2 uid (update_bought r1 (\<not> bought i) x uid w)))"

definition deleteItem :: "reply \<Rightarrow> reply \<Rightarrow> nat \<Rightarrow> nat \<Rightarrow> world \<Rightarrow> world" where
  "deleteItem r1 r2 uid x w =
     (case r1 of
        RemoteError \<Rightarrow> delete_item r1 x uid w
      | Served \<Rightarrow> fetchItems r2 uid (delete_item r1 x uid w))"

definition resetShopping :: "reply \<Rightarrow> reply \<Rightarrow> nat \<Rightarrow> world \<Rightarrow> world" where
  "resetShopping r1 r2 uid w =
     (case r1 of
        RemoteError \<Rightarrow> update_reset r1 uid w
      | Served \<Rightarrow> fetchItems r2 uid ((update_reset r1 uid w)\<lparr>storeMode := False\<rparr>))"

definition toggleCategory :: "string \<Rightarrow> world \<Rightarrow> world" where
  "toggleCategory c w =
     (if c \<in> collapsedCategories w
      then w\<lparr>collapsedCategories := collapsedCategories w - {c}\<rparr>
      else w\<lparr>collapsedCategories := insert c (collapsedCategories w)\<rparr>)"

subsection \<open>Derived views\<close>

definition compareNames :: "(string \<Rightarrow> 'k::linorder) \<Rightarrow> item \<Rightarrow> item \<Rightarrow> int" where
  "compareNames collate a b =
     localeCompare collate (toLowerCase (name a)) (toLowerCase (name b))"

definition filteredItems :: "'a view_scheme \<Rightarrow> string \<Rightarrow> item list" where
  "filteredItems w c =
     (if storeMode w then filter (\<lambda>i. category i = c \<and> needed i) (items w)
      else filter (\<lambda>i. category i = c) (items w))"

definition getItemsByCategory ::
  "source_file \<Rightarrow> (string \<Rightarrow> 'k::linorder) \<Rightarrow> 'a view_scheme \<Rightarrow> string \<Rightarrow> item list" where
  "getItemsByCategory sf collate w c =
     (case sf of
        ShoppingList_js \<Rightarrow> sortBy (compareNames collate) (filteredItems w c)
      | Part_000 \<Rightarrow> filteredItems w c)"

definition getCategoryStats ::
  "source_file \<Rightarrow> (string \<Rightarrow> 'k::linorder) \<Rightarrow> 'a view_scheme \<Rightarrow> string \<Rightarrow> nat \<times> nat" where
  "getCategoryStats sf collate w c =
     (if storeMode w
      then (length (filter bought (getItemsByCategory sf collate w c)),
            length (getItemsByCategory sf collate w c))
      else (length (filter needed (getItemsByCategory sf collate w c)),
            length (getItemsByCategory sf collate w c)))"

definition getNeededItemsCount :: "'a view_scheme \<Rightarrow> nat" where
  "getNeededItemsCount w = length (filter (\<lambda>i. needed i \<and> \<not> bought i) (items w))"

definition getBoughtItemsCount :: "'a view_scheme \<Rightarrow> nat" where
  "getBoughtItemsCount w = length (filter (\<lambda>i. needed i \<and> bought i) (items w))"

definition visibleCategories ::
  "source_file \<Rightarrow> (string \<Rightarrow> 'k::linorder) \<Rightarrow> 'a view_scheme \<Rightarrow> string list" where
  "visibleCategories sf collate w =
     filter (\<lambda>c. length (getItemsByCategory sf collate w c) > 0 \<or> \<not> storeMode w)
       (categories w)"

subsection \<open>A small state to run the definitions on\<close>

text \<open>
  User 7 has two frozen items, fetched in creation order, and has typed a new item and a
  new category; user 8 owns a third row of the table. The component is in store mode.
\<close>

definition peas :: item where
  "peas = \<lparr>item_id = 1, name = ''Peas'', category = ''Frozen'', needed = True,
            bought = False, user_id = 7\<rparr>"

definition ice_cream :: item where
  "ice_cream = \<lparr>item_id = 2, name = ''ice cream'', category = ''Frozen'', needed = False,
                 bought = False, user_id = 7\<rparr>"

definition soap :: item where
  "soap = \<lparr>item_id = 3, name = ''Soap'', category = ''Household items'', needed = True,
            bought = True, user_id = 8\<rparr>"

definition shop :: world where
  "shop = \<lparr>items = [peas, ice_cream],
            categories = defaultCategories ShoppingList_js,
            newItemInputs = [''Frozen'' \<mapsto> '' Fish ''],
            collapsedCategories = {},
            storeMode = True,
            showAddCategory = True,
            newCategoryName = '' Snacks '',
            loading = False,
            shopping_items = [peas, ice_cream, soap],
            categories_table = [],
            next_id = 4,
            requests = []\<rparr>"


section \<open>Sorting\<close>

lemma insertBy_insort_key:
  "insertBy (compareNames collate) x ys =
     insort_key (\<lambda>i. collate (toLowerCase (name i))) x ys"
  by (induction ys) (auto simp: compareNames_def localeCompare_def)

lemma sortBy_sort_key:
  "sortBy (compareNames collate) xs = sort_key (\<lambda>i. collate (toLowerCase (name i))) xs"
  by (induction xs) (simp_all add: insertBy_insort_key)

lemma length_sortBy: "length (sortBy (compareNames collate) xs) = length xs"
  by (simp add: sortBy_sort_key)

section \<open>Items of a category\<close>

text \<open>
  In \<^verbatim>\<open>ShoppingList.js\<close> the plan-mode result holds exactly the items of the category,
  each as often as the list has it, sorted by the collation key of the lower-cased name;
  items with equal keys keep their fetch order.
\<close>

lemma getItemsByCategory_plan_ShoppingList_js:
  "mset (getItemsByCategory ShoppingList_js collate (w\<lparr>storeMode := False\<rparr>) c) =
     filter_mset (\<lambda>i. category i = c) (mset (items w))
   \<and> sorted (map (\<lambda>i. collate (toLowerCase (name i)))
        (getItemsByCategory ShoppingList_js collate (w\<lparr>storeMode := False\<rparr>) c))
   \<and> filter (\<lambda>i. collate (toLowerCase (name i)) = k)
        (getItemsByCategory ShoppingList_js collate (w\<lparr>storeMode := False\<rparr>) c) =
      filter (\<lambda>i. collate (toLowerCase (name i)) = k)
        (filter (\<lambda>i. category i = c) (items w))"
  by (simp add: getItemsByCategory_def filteredItems_def sortBy_sort_key sort_key_stable)

text \<open>In \<^verbatim>\<open>part_000\<close> the result is the filtered list in fetch order.\<close>

lemma getItemsByCategory_plan_Part_000:
  "getItemsByCategory Part_000 collate (w\<lparr>storeMode := False\<rparr>) c =
     filter (\<lambda>i. category i = c) (items w)"
  by (simp add: getItemsByCategory_def filteredItems_def)

text \<open>
  Under every collation that puts \<^verbatim>\<open>ice cream\<close> before \<^verbatim>\<open>peas\<close>, the copy in
  \<^verbatim>\<open>part_000\<close> returns the two frozen items of the example state out of order.
\<close>

lemma toLowerCase_examples:
  "toLowerCase ''Peas'' = ''peas''" "toLowerCase ''ice cream'' = ''ice cream''"
  by code_simp+

lemma getItemsByCategory_Part_000_out_of_order:
  "collate ''ice cream'' < collate ''peas'' \<Longrightarrow>
     \<not> sorted (map (\<lambda>i. collate (toLowerCase (name i)))
          (getItemsByCategory Part_000 collate (shop\<lparr>storeMode := False\<rparr>) ''Frozen''))"
  by (simp add: getItemsByCategory_def filteredItems_def shop_def peas_def ice_cream_def
      toLowerCase_examples)

text \<open>
  Claim C1. In plan mode \<^verbatim>\<open>getItemsByCategory(c)\<close> returns exactly the items whose
  category is \<open>c\<close>, sorted ascending by name compared case-insensitively. The lemma
  \<open>getItemsByCategory_plan_ShoppingList_js\<close> proves this of \<^verbatim>\<open>ShoppingList.js\<close>. The
  copy in \<^verbatim>\<open>part_000\<close> never sorts: for the two frozen items fetched as Peas, ice cream
  it returns them in that order, which is not ascending (ice cream comes first), while
  \<^verbatim>\<open>ShoppingList.js\<close> returns ice cream, Peas.
\<close>

theorem getItemsByCategory_Part_000_not_sorted:
  "map name (getItemsByCategory Part_000 codeUnits (shop\<lparr>storeMode := False\<rparr>) ''Frozen'') =
     [''Peas'', ''ice cream'']
   \<and> \<not> sorted (map (\<lambda>i. codeUnits (toLowerCase (name i)))
         (getItemsByCategory Part_000 codeUnits (shop\<lparr>storeMode := False\<rparr>) ''Frozen''))
   \<and> map name
        (getItemsByCategory ShoppingList_js codeUnits (shop\<lparr>storeMode := False\<rparr>) ''Frozen'') =
     [''ice cream'', ''Peas'']"
  by (simp add: getItemsByCategory_def filteredItems_def shop_def peas_def ice_cream_def
      compareNames_def localeCompare_def codeUnits_def toLowerCase_def toLowerCase_char_def)

text \<open>
  Claim C9. For every item list and category, in both files, the store-mode result of
  \<^verbatim>\<open>getItemsByCategory\<close> is the plan-mode result restricted to the needed items, in the
  same order.
\<close>

theorem getItemsByCategory_store_restricts_plan:
  "getItemsByCategory sf collate (w\<lparr>storeMode := True\<rparr>) c =
     filter needed (getItemsByCategory sf collate (w\<lparr>storeMode := False\<rparr>) c)"
  by (cases sf)
    (simp_all add: getItemsByCategory_def filteredItems_def sortBy_sort_key filter_sort
      conj_commute)

section \<open>Visible categories\<close>

lemma getItemsByCategory_nonempty:
  "(getItemsByCategory sf collate w c \<noteq> []) = (filteredItems w c \<noteq> [])"
  using length_sortBy [of collate "filteredItems w c"]
  by (cases sf) (auto simp: getItemsByCategory_def)

lemma filteredItems_nonempty_store:
  "storeMode w \<Longrightarrow>
     (filteredItems w c \<noteq> []) = (\<exists>i\<in>set (items w). category i = c \<and> needed i)"
  by (auto simp: filteredItems_def filter_empty_conv)

text \<open>
  Claim C3. In store mode the visible categories are exactly the categories with at least
  one needed item, in the order of the resolved list; in plan mode they are the whole
  resolved list; in store mode with no needed item at all the list is empty. This holds in
  both files.
\<close>

theorem visibleCategories_by_mode:
  "(storeMode w \<longrightarrow>
      visibleCategories sf collate w =
        filter (\<lambda>c. \<exists>i\<in>set (items w). category i = c \<and> needed i) (categories w))
   \<and> (\<not> storeMode w \<longrightarrow> visibleCategories sf collate w = categories w)
   \<and> (storeMode w \<and> (\<forall>i\<in>set (items w). \<not> needed i) \<longrightarrow>
        visibleCategories sf collate w = [])"
proof (cases "storeMode w")
  case True
  then have "visibleCategories sf collate w =
        filter (\<lambda>c. \<exists>i\<in>set (items w). category i = c \<and> needed i) (categories w)"
    by (simp add: visibleCategories_def getItemsByCategory_nonempty
        filteredItems_nonempty_store)
  with True show ?thesis by (auto simp: filter_empty_conv)
next
  case False
  then show ?thesis by (simp add: visibleCategories_def)
qed

theorem visibleCategories_by_mode_witness:
  "storeMode shop
   \<and> visibleCategories ShoppingList_js codeUnits shop = [''Frozen'']
   \<and> \<not> storeMode (shop\<lparr>storeMode := False\<rparr>)
   \<and> visibleCategories ShoppingList_js codeUnits (shop\<lparr>storeMode := False\<rparr>) =
       [''Refrigerated items'', ''Bread'', ''Fruit/Veggie'', ''Frozen'', ''Bulk'',
        ''Household items'']
   \<and> list_all (\<lambda>i. \<not> needed i) (items (shop\<lparr>items := [ice_cream]\<rparr>))
   \<and> visibleCategories ShoppingList_js codeUnits (shop\<lparr>items := [ice_cream]\<rparr>) = []"
  using visibleCategories_by_mode [of shop ShoppingList_js codeUnits]
    visibleCategories_by_mode [of "shop\<lparr>storeMode := False\<rparr>" ShoppingList_js codeUnits]
    visibleCategories_by_mode [of "shop\<lparr>items := [ice_cream]\<rparr>" ShoppingList_js codeUnits]
  by (simp add: shop_def peas_def ice_cream_def defaultCategories_def)

section \<open>Counts\<close>

lemma needed_split:
  "length (filter (\<lambda>i. needed i \<and> \<not> bought i) xs) +
     length (filter (\<lambda>i. needed i \<and> bought i) xs) =
   length (filter needed xs)"
  by (induction xs) auto

lemma count_recategorised:
  "length (filter (\<lambda>i. P (needed i) (bought i)) (map (\<lambda>i. i\<lparr>category := f i\<rparr>) xs)) =
     length (filter (\<lambda>i. P (needed i) (bought i)) xs)"
  by (induction xs) auto

text \<open>
  Claim C4. \<^verbatim>\<open>getNeededItemsCount\<close> is the number of items (positions of the list) that
  are needed and not bought, \<^verbatim>\<open>getBoughtItemsCount\<close> the number that are needed and
  bought, and their sum is the number of needed items. Neither changes when the mode
  changes or when the items are moved to other categories.
\<close>

theorem counts_of_needed_items:
  "getNeededItemsCount w =
     card {k. k < length (items w) \<and> needed (items w ! k) \<and> \<not> bought (items w ! k)}
   \<and> getBoughtItemsCount w =
     card {k. k < length (items w) \<and> needed (items w ! k) \<and> bought (items w ! k)}
   \<and> getNeededItemsCount w + getBoughtItemsCount w =
     card {k. k < length (items w) \<and> needed (items w ! k)}
   \<and> getNeededItemsCount (w\<lparr>storeMode := m\<rparr>) = getNeededItemsCount w
   \<and> getBoughtItemsCount (w\<lparr>storeMode := m\<rparr>) = getBoughtItemsCount w
   \<and> getNeededItemsCount (w\<lparr>items := map (\<lambda>i. i\<lparr>category := f i\<rparr>) (items w)\<rparr>) =
       getNeededItemsCount w
   \<and> getBoughtItemsCount (w\<lparr>items := map (\<lambda>i. i\<lparr>category := f i\<rparr>) (items w)\<rparr>) =
       getBoughtItemsCount w"
proof -
  have n: "getNeededItemsCount w =
     card {k. k < length (items w) \<and> needed (items w ! k) \<and> \<not> bought (items w ! k)}"
    unfolding getNeededItemsCount_def by (rule length_filter_conv_card)
  have b: "getBoughtItemsCount w =
     card {k. k < length (items w) \<and> needed (items w ! k) \<and> bought (items w ! k)}"
    unfolding getBoughtItemsCount_def by (rule length_filter_conv_card)
  have "getNeededItemsCount w + getBoughtItemsCount w = length (filter needed (items w))"
    unfolding getNeededItemsCount_def getBoughtItemsCount_def by (rule needed_split)
  also have "\<dots> = card {k. k < length (items w) \<and> needed (items w ! k)}"
    by (rule length_filter_conv_card)
  finally have s: "getNeededItemsCount w + getBoughtItemsCount w =
     card {k. k < length (items w) \<and> needed (items w ! k)}" .
  have m: "getNeededItemsCount (w\<lparr>storeMode := m\<rparr>) = getNeededItemsCount w"
    "getBoughtItemsCount (w\<lparr>storeMode := m\<rparr>) = getBoughtItemsCount w"
    by (simp_all add: getNeededItemsCount_def getBoughtItemsCount_def)
  have c1: "getNeededItemsCount (w\<lparr>items := map (\<lambda>i. i\<lparr>category := f i\<rparr>) (items w)\<rparr>) =
      getNeededItemsCount w"
    using count_recategorised [of "\<lambda>n b. n \<and> \<not> b" f "items w"]
    by (simp add: getNeededItemsCount_def)
  have c2: "getBoughtItemsCount (w\<lparr>items := map (\<lambda>i. i\<lparr>category := f i\<rparr>) (items w)\<rparr>) =
      getBoughtItemsCount w"
    using count_recategorised [of "\<lambda>n b. n \<and> b" f "items w"]
    by (simp add: getBoughtItemsCount_def)
  from n b s m c1 c2 show ?thesis by blast
qed

section \<open>Resolving the categories\<close>






section \<open>The state after a call\<close>

lemma sent_simps [simp]:
  "items (sent q w) = items w" "categories (sent q w) = categories w"
  "newItemInputs (sent q w) = newItemInputs w" "storeMode (sent q w) = storeMode w"
  "showAddCategory (sent q w) = showAddCategory w" "newCategoryName (sent q w) = newCategoryName w"
  "shopping_items (sent q w) = shopping_items w" "categories_table (sent q w) = categories_table w"
  "next_id (sent q w) = next_id w" "requests (sent q w) = requests w @ [q]"
  by (simp_all add: sent_def)

lemma fetchItems_simps [simp]:
  "categories (fetchItems r uid w) = categories w"
  "newItemInputs (fetchItems r uid w) = newItemInputs w" "storeMode (fetchItems r uid w) = storeMode w"
  "showAddCategory (fetchItems r uid w) = showAddCategory w" "newCategoryName (fetchItems r uid w) = newCategoryName w"
  "shopping_items (fetchItems r uid w) = shopping_items w" "categories_table (fetchItems r uid w) = categories_table w"
  "next_id (fetchItems r uid w) = next_id w" "requests (fetchItems r uid w) = requests w @ [Select_items uid]"
  by (simp_all add: fetchItems_def split: reply.split)

lemma items_fetchItems:
  "items (fetchItems Served uid w) = select_items uid w"
  "items (fetchItems RemoteError uid w) = items w"
  by (simp_all add: fetchItems_def)

lemma fetchCategories_simps [simp]:
  "items (fetchCategories sf r uid w) = items w"
  "newItemInputs (fetchCategories sf r uid w) = newItemInputs w"
  "storeMode (fetchCategories sf r uid w) = storeMode w"
  "showAddCategory (fetchCategories sf r uid w) = showAddCategory w"
  "newCategoryName (fetchCategories sf r uid w) = newCategoryName w"
  "shopping_items (fetchCategories sf r uid w) = shopping_items w"
  "categories_table (fetchCategories sf r uid w) = categories_table w"
  "next_id (fetchCategories sf r uid w) = next_id w"
  "requests (fetchCategories sf r uid w) = requests w @ [Select_categories uid]"
  by (simp_all add: fetchCategories_def split: reply.split)

section \<open>Reset\<close>

lemma update_reset_Served:
  "shopping_items (update_reset Served uid w) =
     map (\<lambda>row. if user_id row = uid then row\<lparr>needed := False, bought := False\<rparr> else row) (shopping_items w)"
  "requests (update_reset r uid w) = requests w @ [Update_reset uid]"
  "storeMode (update_reset r uid w) = storeMode w"
  "items (update_reset r uid w) = items w"
  by (simp_all add: update_reset_def split: reply.split)

lemma filter_reset:
  "filter (\<lambda>row. user_id row = uid) (map (\<lambda>row. if user_id row = uid then row\<lparr>needed := False, bought := False\<rparr> else row) rows)
    = map (\<lambda>row. row\<lparr>needed := False, bought := False\<rparr>) (filter (\<lambda>row. user_id row = uid) rows)"
  by (induction rows) simp_all

lemma reset_rows:
  assumes "row \<in> set (map (\<lambda>r. if user_id r = uid then r\<lparr>needed := False, bought := False\<rparr> else r) rows)"
    and "user_id row = uid"
  shows "\<not> needed row \<and> \<not> bought row"
proof -
  from assms(1) obtain r where
    r: "row = (if user_id r = uid then r\<lparr>needed := False, bought := False\<rparr> else r)"
    by (auto simp only: set_map image_iff)
  show ?thesis
  proof (cases "user_id r = uid")
    case True
    with r have "row = r\<lparr>needed := False, bought := False\<rparr>" by simp
    then show ?thesis by simp
  next
    case False
    with r have "row = r" by simp
    with False assms(2) show ?thesis by simp
  qed
qed

lemma reset_items:
  assumes "i \<in> set (map (\<lambda>row. row\<lparr>needed := False, bought := False\<rparr>) rows)"
  shows "\<not> needed i \<and> \<not> bought i"
proof -
  from assms obtain r where "i = r\<lparr>needed := False, bought := False\<rparr>"
    by (auto simp only: set_map image_iff)
  then show ?thesis by simp
qed

text \<open>
  Claim C5. From every state, in either mode, \<^verbatim>\<open>resetShopping\<close> whose update is served
  leaves the component in plan mode and every row of the user with \<^verbatim>\<open>needed\<close> and
  \<^verbatim>\<open>bought\<close> false, and changes no other row. When the fetch after it is served too,
  the items shown are the user's rows, all of them reset.
\<close>

theorem resetShopping_resets_and_plans:
  "\<not> storeMode (resetShopping Served r2 uid w)
   \<and> shopping_items (resetShopping Served r2 uid w) =
       map (\<lambda>row. if user_id row = uid then row\<lparr>needed := False, bought := False\<rparr> else row)
         (shopping_items w)
   \<and> (\<forall>row\<in>set (shopping_items (resetShopping Served r2 uid w)).
         user_id row = uid \<longrightarrow> \<not> needed row \<and> \<not> bought row)
   \<and> items (resetShopping Served Served uid w) =
       map (\<lambda>row. row\<lparr>needed := False, bought := False\<rparr>) (select_items uid w)
   \<and> (\<forall>i\<in>set (items (resetShopping Served Served uid w)). \<not> needed i \<and> \<not> bought i)"
proof -
  have m: "\<not> storeMode (resetShopping Served r2 uid w)"
    by (simp add: resetShopping_def)
  have rows: "shopping_items (resetShopping Served r2 uid w) =
       map (\<lambda>row. if user_id row = uid then row\<lparr>needed := False, bought := False\<rparr> else row)
         (shopping_items w)"
    by (simp add: resetShopping_def update_reset_Served)
  have all: "\<forall>row\<in>set (shopping_items (resetShopping Served r2 uid w)).
         user_id row = uid \<longrightarrow> \<not> needed row \<and> \<not> bought row"
    unfolding rows using reset_rows by blast
  have "items (resetShopping Served Served uid w) =
      select_items uid ((update_reset Served uid w)\<lparr>storeMode := False\<rparr>)"
    by (simp add: resetShopping_def items_fetchItems)
  also have "\<dots> = filter (\<lambda>row. user_id row = uid) (shopping_items (update_reset Served uid w))"
    by (simp add: select_items_def)
  also have "\<dots> = map (\<lambda>row. row\<lparr>needed := False, bought := False\<rparr>) (select_items uid w)"
    by (simp only: update_reset_Served filter_reset select_items_def)
  finally have its: "items (resetShopping Served Served uid w) =
       map (\<lambda>row. row\<lparr>needed := False, bought := False\<rparr>) (select_items uid w)" .
  have fin: "\<forall>i\<in>set (items (resetShopping Served Served uid w)). \<not> needed i \<and> \<not> bought i"
    unfolding its using reset_items by blast
  show ?thesis by (rule conjI m rows all its fin)+
qed

theorem resetShopping_resets_and_plans_witness:
  "storeMode shop
   \<and> \<not> storeMode (resetShopping Served Served 7 shop)
   \<and> shopping_items (resetShopping Served Served 7 shop) =
       [peas\<lparr>needed := False\<rparr>, ice_cream, soap]
   \<and> items (resetShopping Served Served 7 shop) = [peas\<lparr>needed := False\<rparr>, ice_cream]
   \<and> \<not> storeMode (resetShopping Served Served 7 (shop\<lparr>storeMode := False\<rparr>))"
  using resetShopping_resets_and_plans [of Served 7 shop]
    resetShopping_resets_and_plans [of Served 7 "shop\<lparr>storeMode := False\<rparr>"]
  by (simp add: shop_def peas_def ice_cream_def soap_def select_items_def)

text \<open>When the update fails, the catch block logs: only the request was sent.\<close>

lemma resetShopping_failed:
  "resetShopping RemoteError r2 uid w = sent (Update_reset uid) w"
  by (simp add: resetShopping_def update_reset_def)

section \<open>Adding a category or an item\<close>

lemma insert_category_Served:
  "categories_table (insert_category Served n uid w) =
     categories_table w @ [\<lparr>row_name = n, row_user_id = uid\<rparr>]"
  "requests (insert_category r n uid w) = requests w @ [Insert_category n uid]"
  by (simp_all add: insert_category_def split: reply.split)

lemma insert_item_Served:
  "shopping_items (insert_item Served n c nd bt uid w) =
     shopping_items w @
       [\<lparr>item_id = next_id w, name = n, category = c, needed = nd, bought = bt, user_id = uid\<rparr>]"
  "requests (insert_item r n c nd bt uid w) = requests w @ [Insert_item n c nd bt uid]"
  "newItemInputs (insert_item r n c nd bt uid w) = newItemInputs w"
  by (simp_all add: insert_item_def split: reply.split)

text \<open>
  Claim C6. When the trimmed pending name is empty or already in the resolved list,
  \<^verbatim>\<open>addCategory\<close> returns the state as it was: no request is sent. Otherwise the served
  insert adds one row with the trimmed name and the owner, the pending name is cleared,
  the form is closed, and the categories are fetched again. This holds in both files.
\<close>

theorem addCategory_guard_and_insert:
  "(trim (newCategoryName w) = [] \<or> trim (newCategoryName w) \<in> set (categories w) \<longrightarrow>
      addCategory sf r1 r2 uid w = w)
   \<and> (trim (newCategoryName w) \<noteq> [] \<and> trim (newCategoryName w) \<notin> set (categories w) \<longrightarrow>
        categories_table (addCategory sf Served r2 uid w) =
          categories_table w @ [\<lparr>row_name = trim (newCategoryName w), row_user_id = uid\<rparr>]
        \<and> requests (addCategory sf Served r2 uid w) =
          requests w @ [Insert_category (trim (newCategoryName w)) uid, Select_categories uid]
        \<and> newCategoryName (addCategory sf Served r2 uid w) = []
        \<and> \<not> showAddCategory (addCategory sf Served r2 uid w))"
  by (simp add: addCategory_def insert_category_Served)

theorem addCategory_guard_and_insert_witness:
  "trim (newCategoryName shop) = ''Snacks''
   \<and> categories_table (addCategory ShoppingList_js Served Served 7 shop) =
       [\<lparr>row_name = ''Snacks'', row_user_id = 7\<rparr>]
   \<and> requests (addCategory ShoppingList_js Served Served 7 shop) =
       [Insert_category ''Snacks'' 7, Select_categories 7]
   \<and> newCategoryName (addCategory ShoppingList_js Served Served 7 shop) = []
   \<and> \<not> showAddCategory (addCategory ShoppingList_js Served Served 7 shop)
   \<and> trim (newCategoryName (shop\<lparr>newCategoryName := '' Bread''\<rparr>)) = ''Bread''
   \<and> addCategory ShoppingList_js Served Served 7 (shop\<lparr>newCategoryName := '' Bread''\<rparr>) =
       shop\<lparr>newCategoryName := '' Bread''\<rparr>
   \<and> addCategory ShoppingList_js Served Served 7 (shop\<lparr>newCategoryName := ''  ''\<rparr>) =
       shop\<lparr>newCategoryName := ''  ''\<rparr>
   \<and> categories_table
        (addCategory ShoppingList_js Served Served 7 (shop\<lparr>newCategoryName := ''bread''\<rparr>)) =
       [\<lparr>row_name = ''bread'', row_user_id = 7\<rparr>]"
  using addCategory_guard_and_insert [of shop ShoppingList_js Served Served 7]
    addCategory_guard_and_insert
      [of "shop\<lparr>newCategoryName := ''bread''\<rparr>" ShoppingList_js Served Served 7]
    addCategory_guard_and_insert
      [of "shop\<lparr>newCategoryName := '' Bread''\<rparr>" ShoppingList_js Served Served 7]
    addCategory_guard_and_insert
      [of "shop\<lparr>newCategoryName := ''  ''\<rparr>" ShoppingList_js Served Served 7]
  by (simp add: shop_def trim_def isWhiteSpace_def defaultCategories_def)

lemma addCategory_failed:
  "trim (newCategoryName w) \<noteq> [] \<Longrightarrow> trim (newCategoryName w) \<notin> set (categories w) \<Longrightarrow>
     addCategory sf RemoteError r2 uid w = sent (Insert_category (trim (newCategoryName w)) uid) w"
  by (simp add: addCategory_def insert_category_def)

text \<open>
  Claim C7. When the trimmed pending input of the category is empty, \<^verbatim>\<open>addItem\<close>
  returns the state as it was: no request is sent. Otherwise the served insert adds
  exactly one row, with the trimmed input as name, the category, \<^verbatim>\<open>needed\<close> and
  \<^verbatim>\<open>bought\<close> false and the owner; the pending input of that category becomes the empty
  string and those of the other categories stay; the items are fetched again.
\<close>

theorem addItem_guard_and_insert:
  "(trim (inputValue w c) = [] \<longrightarrow> addItem r1 r2 uid c w = w)
   \<and> (trim (inputValue w c) \<noteq> [] \<longrightarrow>
        shopping_items (addItem Served r2 uid c w) =
          shopping_items w @
            [\<lparr>item_id = next_id w, name = trim (inputValue w c), category = c,
              needed = False, bought = False, user_id = uid\<rparr>]
        \<and> requests (addItem Served r2 uid c w) =
          requests w @ [Insert_item (trim (inputValue w c)) c False False uid, Select_items uid]
        \<and> newItemInputs (addItem Served r2 uid c w) = (newItemInputs w)(c \<mapsto> [])
        \<and> inputValue (addItem Served r2 uid c w) c = [])"
  by (simp add: addItem_def insert_item_Served inputValue_def)

theorem addItem_guard_and_insert_witness:
  "trim (inputValue shop ''Frozen'') = ''Fish''
   \<and> shopping_items (addItem Served Served 7 ''Frozen'' shop) =
       [peas, ice_cream, soap,
        \<lparr>item_id = 4, name = ''Fish'', category = ''Frozen'', needed = False, bought = False,
          user_id = 7\<rparr>]
   \<and> requests (addItem Served Served 7 ''Frozen'' shop) =
       [Insert_item ''Fish'' ''Frozen'' False False 7, Select_items 7]
   \<and> inputValue (addItem Served Served 7 ''Frozen'' shop) ''Frozen'' = []
   \<and> trim (inputValue shop ''Bread'') = []
   \<and> addItem Served Served 7 ''Bread'' shop = shop"
  using addItem_guard_and_insert [of shop "''Frozen''" Served Served 7]
    addItem_guard_and_insert [of shop "''Bread''" Served Served 7]
  by (simp add: shop_def trim_def isWhiteSpace_def inputValue_def)

lemma addItem_failed:
  "trim (inputValue w c) \<noteq> [] \<Longrightarrow>
     addItem RemoteError r2 uid c w =
       sent (Insert_item (trim (inputValue w c)) c False False uid) w"
  by (simp add: addItem_def insert_item_def)

section \<open>Toggling\<close>

text \<open>
  Claim C10. For an id that no item of the list has, \<^verbatim>\<open>toggleNeeded\<close> and
  \<^verbatim>\<open>toggleBought\<close> return the state as it was, whatever the service would reply: no
  request is sent, and items, tables and the rest of the state are unchanged.
\<close>

theorem toggle_of_absent_id:
  "x \<notin> item_id ` set (items w) \<Longrightarrow>
     toggleNeeded r1 r2 uid x w = w \<and> toggleBought r1 r2 uid x w = w"
proof -
  assume "x \<notin> item_id ` set (items w)"
  then have "find (\<lambda>i. item_id i = x) (items w) = None"
    unfolding find_None_iff by blast
  then show ?thesis by (simp add: toggleNeeded_def toggleBought_def)
qed

theorem toggle_of_absent_id_witness:
  "9 \<notin> item_id ` set (items shop)
   \<and> toggleNeeded Served Served 7 9 shop = shop
   \<and> toggleBought Served Served 7 9 shop = shop"
proof -
  have h: "9 \<notin> item_id ` set (items shop)"
    by (simp add: shop_def peas_def ice_cream_def)
  show ?thesis using h toggle_of_absent_id [OF h, of Served Served 7] by simp
qed

lemma update_needed_Served:
  "shopping_items (update_needed Served v x uid w) = map (patch_needed v x uid) (shopping_items w)"
  "requests (update_needed r v x uid w) = requests w @ [Update_needed v x uid]"
  "items (update_needed r v x uid w) = items w"
  by (simp_all add: update_needed_def split: reply.split)

lemma toggleNeeded_found:
  assumes "find (\<lambda>i. item_id i = x) (items w) = Some it"
  shows "shopping_items (toggleNeeded Served r2 uid x w) =
           map (patch_needed (\<not> needed it) x uid) (shopping_items w)"
    and "items (toggleNeeded Served Served uid x w) =
           filter (\<lambda>r. user_id r = uid) (map (patch_needed (\<not> needed it) x uid) (shopping_items w))"
  using assms
  by (simp_all add: toggleNeeded_def items_fetchItems select_items_def update_needed_Served)

lemma patched_needed:
  assumes "i \<in> set (filter (\<lambda>r. user_id r = uid) (map (patch_needed v x uid) rows))"
    and "item_id i = x"
  shows "needed i = v"
proof -
  from assms(1) obtain r where r: "r \<in> set rows" "i = patch_needed v x uid r" and u: "user_id i = uid"
    by auto
  show ?thesis
  proof (cases "item_id r = x \<and> user_id r = uid")
    case True
    with r show ?thesis by (simp add: patch_needed_def)
  next
    case False
    with r have "i = r" by (simp add: patch_needed_def)
    with False u assms(2) show ?thesis by simp
  qed
qed

lemma patched_present:
  assumes "r \<in> set rows" "item_id r = x" "user_id r = uid"
  shows "\<exists>i\<in>set (filter (\<lambda>r. user_id r = uid) (map (patch_needed v x uid) rows)). item_id i = x"
proof -
  from assms have "patch_needed v x uid r \<in> set (filter (\<lambda>r. user_id r = uid) (map (patch_needed v x uid) rows))"
    by (simp add: patch_needed_def)
  moreover from assms have "item_id (patch_needed v x uid r) = x"
    by (simp add: patch_needed_def)
  ultimately show ?thesis by blast
qed

lemma find_present:
  "(\<exists>i\<in>set xs. item_id i = x) \<Longrightarrow> \<exists>i. find (\<lambda>i. item_id i = x) xs = Some i"
  by (cases "find (\<lambda>i. item_id i = x) xs") (auto simp: find_None_iff)

lemma find_Some_props:
  "find (\<lambda>i. item_id i = x) xs = Some i \<Longrightarrow> i \<in> set xs \<and> item_id i = x"
  by (auto simp: find_Some_iff)

lemma toggleNeeded_once:
  assumes "find (\<lambda>i. item_id i = x) (items w) = Some it"
    and "i \<in> set (items (toggleNeeded Served Served uid x w))" and "item_id i = x"
  shows "needed i = (\<not> needed it)"
  using assms(2,3) unfolding toggleNeeded_found(2) [OF assms(1)]
  by (rule patched_needed)

lemma toggleNeeded_absent:
  assumes "find (\<lambda>i. item_id i = x) (items w) = None"
  shows "toggleNeeded r1 r2 uid x w = w"
  using assms by (simp add: toggleNeeded_def)

lemma toggleNeeded_twice_flag:
  assumes f: "find (\<lambda>i. item_id i = x) (items w) = Some it"
    and i: "i \<in> set (items (toggleNeeded Served Served uid x (toggleNeeded Served Served uid x w)))"
    and x: "item_id i = x"
  shows "needed i = needed it"
proof (cases "find (\<lambda>i. item_id i = x) (items (toggleNeeded Served Served uid x w))")
  case None
  then have "toggleNeeded Served Served uid x (toggleNeeded Served Served uid x w) =
      toggleNeeded Served Served uid x w"
    by (rule toggleNeeded_absent)
  with i have "i \<in> set (items (toggleNeeded Served Served uid x w))" by simp
  with None x show ?thesis unfolding find_None_iff by blast
next
  case (Some it1)
  then have "it1 \<in> set (items (toggleNeeded Served Served uid x w)) \<and> item_id it1 = x"
    by (rule find_Some_props)
  then have "needed it1 = (\<not> needed it)"
    using toggleNeeded_once [OF f] by blast
  moreover have "needed i = (\<not> needed it1)"
    using Some i x by (rule toggleNeeded_once)
  ultimately show ?thesis by simp
qed

lemma toggleNeeded_twice_present:
  assumes f: "find (\<lambda>i. item_id i = x) (items w) = Some it"
    and r: "r \<in> set (shopping_items w)" "item_id r = x" "user_id r = uid"
  shows "\<exists>i. find (\<lambda>i. item_id i = x)
            (items (toggleNeeded Served Served uid x (toggleNeeded Served Served uid x w))) = Some i
          \<and> needed i = needed it"
proof -
  let ?w1 = "toggleNeeded Served Served uid x w"
  let ?w2 = "toggleNeeded Served Served uid x ?w1"
  have "\<exists>i\<in>set (items ?w1). item_id i = x"
    unfolding toggleNeeded_found(2) [OF f] using r by (rule patched_present)
  then obtain it1 where f1: "find (\<lambda>i. item_id i = x) (items ?w1) = Some it1"
    using find_present by blast
  have "patch_needed (\<not> needed it) x uid r \<in> set (shopping_items ?w1)"
    unfolding toggleNeeded_found(1) [OF f] using r(1) by simp
  moreover have "item_id (patch_needed (\<not> needed it) x uid r) = x"
    "user_id (patch_needed (\<not> needed it) x uid r) = uid"
    using r(2,3) by (simp_all add: patch_needed_def)
  ultimately have "\<exists>i\<in>set (items ?w2). item_id i = x"
    unfolding toggleNeeded_found(2) [OF f1] by (rule patched_present)
  then obtain i where f2: "find (\<lambda>i. item_id i = x) (items ?w2) = Some i"
    using find_present by blast
  then have "i \<in> set (items ?w2) \<and> item_id i = x" by (rule find_Some_props)
  then have "needed i = needed it"
    using toggleNeeded_twice_flag [OF f] by blast
  with f2 show ?thesis by blast
qed

lemma patch_needed_back:
  assumes "item_id r = x \<and> user_id r = uid \<longrightarrow> needed r = v"
  shows "patch_needed v x uid (patch_needed v' x uid r) = r"
proof (cases "item_id r = x \<and> user_id r = uid")
  case True
  with assms have "needed r = v" by simp
  with True show ?thesis by (simp add: patch_needed_def)
next
  case False
  show ?thesis by (simp only: patch_needed_def False if_False)
qed

lemma toggleNeeded_round_trip:
  assumes f: "find (\<lambda>i. item_id i = x) (items w) = Some it"
    and sync: "items w = select_items uid w"
    and ids: "distinct (map item_id (items w))"
  shows "shopping_items (toggleNeeded Served Served uid x (toggleNeeded Served Served uid x w)) =
           shopping_items w"
    and "items (toggleNeeded Served Served uid x (toggleNeeded Served Served uid x w)) = items w"
proof -
  let ?w1 = "toggleNeeded Served Served uid x w"
  let ?w2 = "toggleNeeded Served Served uid x ?w1"
  from f have it: "it \<in> set (items w)" "item_id it = x"
    using find_Some_props by blast+
  from ids have inj: "inj_on item_id (set (items w))"
    by (simp add: distinct_map)
  have same: "needed r = needed it"
    if "r \<in> set (shopping_items w)" "item_id r = x" "user_id r = uid" for r
  proof -
    from that sync have "r \<in> set (items w)" by (simp add: select_items_def)
    with inj it that(2) have "r = it" by (auto dest: inj_onD)
    then show ?thesis by simp
  qed
  from it(1) sync have row: "it \<in> set (shopping_items w)" "user_id it = uid"
    by (simp_all add: select_items_def)
  have "\<exists>i\<in>set (items ?w1). item_id i = x"
    unfolding toggleNeeded_found(2) [OF f] using row(1) it(2) row(2) by (rule patched_present)
  then obtain it1 where f1: "find (\<lambda>i. item_id i = x) (items ?w1) = Some it1"
    using find_present by blast
  then have "it1 \<in> set (items ?w1) \<and> item_id it1 = x" by (rule find_Some_props)
  then have n1: "needed it1 = (\<not> needed it)"
    using toggleNeeded_once [OF f] by blast
  have "shopping_items ?w2 =
      map (patch_needed (needed it) x uid) (map (patch_needed (\<not> needed it) x uid) (shopping_items w))"
    unfolding toggleNeeded_found(1) [OF f1] toggleNeeded_found(1) [OF f] n1 by simp
  also have "\<dots> = map (\<lambda>r. r) (shopping_items w)"
    unfolding map_map comp_def
  proof (rule map_cong [OF refl])
    fix r assume "r \<in> set (shopping_items w)"
    then have "item_id r = x \<and> user_id r = uid \<longrightarrow> needed r = needed it"
      using same by blast
    then show "patch_needed (needed it) x uid (patch_needed (\<not> needed it) x uid r) = r"
      by (rule patch_needed_back)
  qed
  finally show rows: "shopping_items ?w2 = shopping_items w" by simp
  have "items ?w2 = select_items uid ?w2"
    using f1 by (simp add: toggleNeeded_def items_fetchItems select_items_def update_needed_Served)
  also have "\<dots> = select_items uid w"
    using rows by (simp add: select_items_def)
  finally show "items ?w2 = items w" using sync by simp
qed

text \<open>
  Claim C8. Let \<open>it\<close> be the item that \<^verbatim>\<open>toggleNeeded\<close> finds for the id. After one
  served toggle every item shown with that id has the flipped flag, and after a second
  one every item shown with that id has the flag of \<open>it\<close> again. When the table holds a
  row of the user with that id, the item is still found after the two toggles. The lemma
  \<open>toggleNeeded_round_trip\<close> adds that table and items are then exactly as before, when
  the items were in step with the table and their ids are pairwise different.
\<close>

theorem toggleNeeded_twice:
  assumes "find (\<lambda>i. item_id i = x) (items w) = Some it"
  shows "(\<forall>i\<in>set (items (toggleNeeded Served Served uid x w)).
            item_id i = x \<longrightarrow> needed i = (\<not> needed it))
    \<and> (\<forall>i\<in>set (items (toggleNeeded Served Served uid x (toggleNeeded Served Served uid x w))).
            item_id i = x \<longrightarrow> needed i = needed it)
    \<and> ((\<exists>r\<in>set (shopping_items w). item_id r = x \<and> user_id r = uid) \<longrightarrow>
          (\<exists>i. find (\<lambda>i. item_id i = x)
                 (items (toggleNeeded Served Served uid x (toggleNeeded Served Served uid x w))) =
               Some i
             \<and> needed i = needed it))"
  using toggleNeeded_once [OF assms] toggleNeeded_twice_flag [OF assms]
    toggleNeeded_twice_present [OF assms]
  by blast

theorem toggleNeeded_twice_witness:
  "find (\<lambda>i. item_id i = 2) (items shop) = Some ice_cream
   \<and> \<not> needed ice_cream
   \<and> list_ex (\<lambda>r. item_id r = 2 \<and> user_id r = 7) (shopping_items shop)
   \<and> items (toggleNeeded Served Served 7 2 shop) = [peas, ice_cream\<lparr>needed := True\<rparr>]
   \<and> items (toggleNeeded Served Served 7 2 (toggleNeeded Served Served 7 2 shop)) =
       [peas, ice_cream]
   \<and> find (\<lambda>i. item_id i = 2)
        (items (toggleNeeded Served Served 7 2 (toggleNeeded Served Served 7 2 shop))) =
       Some ice_cream"
proof -
  have h: "find (\<lambda>i. item_id i = 2) (items shop) = Some ice_cream"
    by (simp add: shop_def peas_def ice_cream_def)
  show ?thesis
    using h toggleNeeded_twice [OF h, of 7]
    by (simp add: toggleNeeded_def fetchItems_def update_needed_def sent_def select_items_def
        patch_needed_def shop_def peas_def ice_cream_def soap_def)
qed

lemma toggleNeeded_failed:
  "find (\<lambda>i. item_id i = x) (items w) = Some it \<Longrightarrow>
     toggleNeeded RemoteError r2 uid x w = sent (Update_needed (\<not> needed it) x uid) w"
  by (simp add: toggleNeeded_def update_needed_def)

end
